theory Spec2Isabelle
  imports Main "HOL-Library.AList"
begin

section \<open>Strings\<close>

text \<open>
  Python strings are modelled as \<open>string\<close> (lists of characters). The text handled by
  \<^verbatim>\<open>scraper.py\<close> is modelled over ASCII: \<open>lower\<close> folds the letters \<open>A\<close>..\<open>Z\<close>,
  \<open>isdigit\<close> is \<open>0\<close>..\<open>9\<close> and \<open>isspace\<close> is the ASCII white space of \<^verbatim>\<open>str.isspace\<close>
  (which is also what \<^verbatim>\<open>\s\<close> matches). Python values that are either a \<^verbatim>\<open>str\<close> or
  \<^verbatim>\<open>None\<close> are \<open>string option\<close>, and a \<^verbatim>\<open>dict\<close> whose keys are strings is an
  association list in insertion order.
\<close>

type_synonym pyval = "string option"
type_synonym dict = "(string \<times> pyval) list"

definition lower_char :: "char \<Rightarrow> char" where
  "lower_char c =
     (case map_of (zip ''ABCDEFGHIJKLMNOPQRSTUVWXYZ'' ''abcdefghijklmnopqrstuvwxyz'') c of
        Some d \<Rightarrow> d
      | None \<Rightarrow> c)"

definition lower :: "string \<Rightarrow> string" where
  "lower s = map lower_char s"

definition isdigit :: "char \<Rightarrow> bool" where
  "isdigit c = (c \<in> set ''0123456789'')"

definition isspace :: "char \<Rightarrow> bool" where
  "isspace c =
     (c \<in> set [CHR 0x09, CHR 0x0A, CHR 0x0B, CHR 0x0C, CHR 0x0D,
                CHR 0x1C, CHR 0x1D, CHR 0x1E, CHR 0x1F, CHR '' ''])"

text \<open>\<^verbatim>\<open>s.strip()\<close>: white space removed at both ends.\<close>

definition strip :: "string \<Rightarrow> string" where
  "strip s = rev (dropWhile isspace (rev (dropWhile isspace s)))"

text \<open>\<^verbatim>\<open>s.rstrip(chars)\<close>: every trailing character that belongs to \<open>chars\<close> is removed.\<close>

definition rstrip :: "string \<Rightarrow> string \<Rightarrow> string" where
  "rstrip chars s = rev (dropWhile (\<lambda>c. c \<in> set chars) (rev s))"

definition startswith :: "string \<Rightarrow> string \<Rightarrow> bool" where
  "startswith sub s = (take (length sub) s = sub)"

text \<open>\<^verbatim>\<open>sub in s\<close> on strings.\<close>

fun contains :: "string \<Rightarrow> string \<Rightarrow> bool" where
  "contains sub [] = (sub = [])"
| "contains sub (c # cs) = (startswith sub (c # cs) \<or> contains sub cs)"

section \<open>The regular expressions of \<^verbatim>\<open>extract_movie_info\<close>\<close>

text \<open>
  Each pattern of the source is an anchored matcher: applied to the rest of the subject at
  one position it returns the length of the match there and the text of group 1 (the whole
  match for a pattern without a group), or \<open>None\<close>. \<open>re_search\<close> tries the positions from
  left to right as \<^verbatim>\<open>re.search\<close> does; \<open>re_sub\<close> replaces the leftmost non-overlapping
  matches as \<^verbatim>\<open>re.sub\<close> does. No pattern of the source matches the empty string.
\<close>

type_synonym matcher = "string \<Rightarrow> (nat \<times> string) option"

fun re_search :: "matcher \<Rightarrow> string \<Rightarrow> string option" where
  "re_search m [] = map_option snd (m [])"
| "re_search m (c # cs) =
     (case m (c # cs) of
        Some (n, g) \<Rightarrow> Some g
      | None \<Rightarrow> re_search m cs)"

function re_sub :: "matcher \<Rightarrow> string \<Rightarrow> string \<Rightarrow> string" where
  "re_sub m repl [] = []"
| "re_sub m repl (c # cs) =
     (case m (c # cs) of
        Some (n, g) \<Rightarrow> repl @ re_sub m repl (drop (n - 1) cs)
      | None \<Rightarrow> c # re_sub m repl cs)"
  by pat_completeness auto
termination
  by (relation "measure (\<lambda>(m, repl, s). length s)") auto

text \<open>\<^verbatim>\<open>\((\d{4})\)\<close>\<close>

definition m_year :: matcher where
  "m_year s =
     (case s of
        c0 # c1 # c2 # c3 # c4 # c5 # _ \<Rightarrow>
          if c0 = CHR ''('' \<and> isdigit c1 \<and> isdigit c2 \<and> isdigit c3 \<and> isdigit c4 \<and> c5 = CHR '')''
          then Some (6, [c1, c2, c3, c4])
          else None
      | _ \<Rightarrow> None)"

text \<open>
  An alternation of literals under \<^verbatim>\<open>re.IGNORECASE\<close>: at one position the first
  alternative of the list that matches is taken.
\<close>

definition startswith_ci :: "string \<Rightarrow> string \<Rightarrow> bool" where
  "startswith_ci lit s = (length lit \<le> length s \<and> lower (take (length lit) s) = lower lit)"

fun m_alts :: "string list \<Rightarrow> matcher" where
  "m_alts [] s = None"
| "m_alts (a # as) s =
     (if startswith_ci a s then Some (length a, take (length a) s) else m_alts as s)"

text \<open>\<^verbatim>\<open>(720p|1080p|480p|4K|2160p)\<close>\<close>

definition quality_alts :: "string list" where
  "quality_alts = [''720p'', ''1080p'', ''480p'', ''4K'', ''2160p'']"

text \<open>
  \<^verbatim>\<open>(HDRip|BluRay|WEB-DL|HEVC|x264|x265|AAC|ESubs?|ORG\.?|Full|Movie)\<close>. Nothing follows
  the group, so the greedy optional character of \<^verbatim>\<open>ESubs?\<close> and of \<^verbatim>\<open>ORG\.?\<close> is taken
  whenever it is there: each is the ordered choice of the longer literal, then the shorter.
\<close>

definition tag_alts :: "string list" where
  "tag_alts = [''HDRip'', ''BluRay'', ''WEB-DL'', ''HEVC'', ''x264'', ''x265'', ''AAC'',
               ''ESubs'', ''ESub'', ''ORG.'', ''ORG'', ''Full'', ''Movie'']"

text \<open>
  \<^verbatim>\<open>\[([0-9.]+\s?(?:GB|MB))\]\<close> under \<^verbatim>\<open>re.IGNORECASE\<close>. What follows the greedy run
  \<^verbatim>\<open>[0-9.]+\<close> is neither a digit nor a dot, and what follows \<^verbatim>\<open>\s?\<close> is not white
  space, so backtracking never finds a match that the longest run misses.
\<close>

definition isnum :: "char \<Rightarrow> bool" where
  "isnum c = (isdigit c \<or> c = CHR ''.'')"

definition m_size :: matcher where
  "m_size s =
     (case s of
        [] \<Rightarrow> None
      | c # r \<Rightarrow>
          if c \<noteq> CHR ''['' then None
          else
            let num = takeWhile isnum r;
                r1 = dropWhile isnum r;
                sp = (case r1 of [] \<Rightarrow> [] | d # _ \<Rightarrow> if isspace d then [d] else []);
                r2 = drop (length sp) r1;
                unit = take 2 r2;
                r3 = drop 2 r2
            in if num \<noteq> [] \<and> (lower unit = ''gb'' \<or> lower unit = ''mb'') \<and> take 1 r3 = '']''
               then Some (length num + length sp + 4, num @ sp @ unit)
               else None)"

text \<open>
  \<^verbatim>\<open>\[.*?\]\<close>: the lazy \<^verbatim>\<open>.*?\<close> stops at the first \<^verbatim>\<open>]\<close>, and \<^verbatim>\<open>.\<close> does not match a
  newline.
\<close>

definition m_bracket :: matcher where
  "m_bracket s =
     (case s of
        [] \<Rightarrow> None
      | c # r \<Rightarrow>
          if c \<noteq> CHR ''['' then None
          else
            let body = takeWhile (\<lambda>d. d \<noteq> CHR '']'' \<and> d \<noteq> CHR 0x0A) r;
                rest = dropWhile (\<lambda>d. d \<noteq> CHR '']'' \<and> d \<noteq> CHR 0x0A) r
            in if take 1 rest = '']'' then Some (length body + 2, c # body @ '']'') else None)"

text \<open>\<^verbatim>\<open>\s+\<close>\<close>

definition m_spaces :: matcher where
  "m_spaces s =
     (let ws = takeWhile isspace s in if ws = [] then None else Some (length ws, ws))"

section \<open>\<^verbatim>\<open>extract_movie_info\<close>\<close>

definition languages :: "string list" where
  "languages = [''Hindi'', ''English'', ''Tamil'', ''Telugu'', ''Bengali'', ''Punjabi'',
                ''Marathi'', ''Malayalam'', ''Kannada'', ''Gujarati'', ''Urdu'', ''Dual Audio'']"

text \<open>The loop \<^verbatim>\<open>for lang in languages\<close>, left by \<^verbatim>\<open>break\<close> at the first hit.\<close>

fun detect_language :: "string list \<Rightarrow> string \<Rightarrow> dict \<Rightarrow> dict" where
  "detect_language [] title_text info = info"
| "detect_language (lang # langs) title_text info =
     (if contains (lower lang) (lower title_text)
      then AList.update ''language'' (Some lang) info
      else detect_language langs title_text info)"

text \<open>The lines under \<^verbatim>\<open># Clean title\<close>: five substitutions, then \<^verbatim>\<open>strip\<close>.\<close>

definition clean :: "string \<Rightarrow> string" where
  "clean title_text =
     (let clean_title = re_sub m_year '''' title_text;
          clean_title = re_sub (m_alts quality_alts) '''' clean_title;
          clean_title = re_sub m_bracket '''' clean_title;
          clean_title = re_sub (m_alts tag_alts) '''' clean_title;
          clean_title = strip (re_sub m_spaces '' '' clean_title)
      in clean_title)"

definition extract_movie_info :: "string \<Rightarrow> dict" where
  "extract_movie_info title_text =
     (let info = [(''title'', Some title_text), (''year'', None), (''quality'', None),
                  (''language'', None), (''file_size'', None)];
          info = (case re_search m_year title_text of
                    Some g \<Rightarrow> AList.update ''year'' (Some g) info
                  | None \<Rightarrow> info);
          info = (case re_search (m_alts quality_alts) title_text of
                    Some g \<Rightarrow> AList.update ''quality'' (Some g) info
                  | None \<Rightarrow> info);
          info = (case re_search m_size title_text of
                    Some g \<Rightarrow> AList.update ''file_size'' (Some g) info
                  | None \<Rightarrow> info);
          info = detect_language languages title_text info;
          info = AList.update ''title'' (Some (clean title_text)) info
      in info)"

section \<open>Configuration\<close>

definition BASE_URL :: string where
  "BASE_URL = ''https://skymovieshd.mba''"

definition REQUEST_DELAY :: int where
  "REQUEST_DELAY = 2"

text \<open>\<^verbatim>\<open>CATEGORIES\<close>: each entry is the pair of its \<^verbatim>\<open>name\<close> and its \<^verbatim>\<open>url\<close>.\<close>

definition CATEGORIES :: "(string \<times> string) list" where
  "CATEGORIES =
     [(''Bollywood Movies'', ''https://skymovieshd.mba/category/Bollywood-Movies.html''),
      (''South Indian Hindi Dubbed Movies'',
         ''https://skymovieshd.mba/category/South-Indian-Hindi-Dubbed-Movies.html''),
      (''Hollywood English Movies'',
         ''https://skymovieshd.mba/category/Hollywood-English-Movies.html''),
      (''Hollywood Hindi Dubbed Movies'',
         ''https://skymovieshd.mba/category/Hollywood-Hindi-Dubbed-Movies.html''),
      (''WWE TV Shows'', ''https://skymovieshd.mba/category/WWE-TV-Shows.html''),
      (''TV Serial Episodes'', ''https://skymovieshd.mba/category/TV-Serial-Episodes.html''),
      (''Hot Short Film'', ''https://skymovieshd.mba/category/Hot-Short-Film.html''),
      (''All Web Series'', ''https://skymovieshd.mba/category/All-Web-Series.html'')]"

section \<open>The network, exceptions and effects\<close>

text \<open>
  The exceptions that the code can meet. \<open>HTTPError\<close> (raised by \<^verbatim>\<open>raise_for_status\<close>) and
  \<open>RequestException\<close> are the ones \<^verbatim>\<open>except requests.exceptions.RequestException\<close>
  catches; all five are caught by \<^verbatim>\<open>except Exception\<close>.
\<close>

datatype exn =
    HTTPError int
  | RequestException string
  | OtherException string
  | ValueError string
  | KeyError string

fun is_request_exception :: "exn \<Rightarrow> bool" where
  "is_request_exception (HTTPError status) = True"
| "is_request_exception (RequestException msg) = True"
| "is_request_exception e = False"

text \<open>
  \<^verbatim>\<open>session.get(url, timeout=TIMEOUT)\<close> either returns a response (status code and body)
  or raises. What the transport adapter mounted by \<^verbatim>\<open>create_session\<close> does inside one
  call is not code of this program; a session is the outcome of the \<open>k\<close>-th call for each
  URL, counted from 0.
\<close>

datatype get_result = Response int string | Raises exn

type_synonym session = "string \<Rightarrow> nat \<Rightarrow> get_result"

definition raise_for_status :: "int \<Rightarrow> exn option" where
  "raise_for_status status = (if 400 \<le> status \<and> status < 600 then Some (HTTPError status) else None)"

text \<open>
  The body of the \<^verbatim>\<open>try\<close> blocks: \<^verbatim>\<open>session.get\<close>, then \<^verbatim>\<open>raise_for_status\<close>, then the
  body of the response.
\<close>

definition attempt_get :: "session \<Rightarrow> string \<Rightarrow> nat \<Rightarrow> exn + string" where
  "attempt_get session url k =
     (case session url k of
        Raises e \<Rightarrow> Inl e
      | Response status body \<Rightarrow>
          (case raise_for_status status of
             Some e \<Rightarrow> Inl e
           | None \<Rightarrow> Inr body))"

text \<open>
  The effects of a run, in the order in which they happen: the requests issued, the calls
  of \<^verbatim>\<open>time.sleep\<close> and the calls of the logger (one constructor for each call site, with
  the values its message is formatted from). Output written by \<^verbatim>\<open>print\<close> is left out.
\<close>

datatype event =
    Get string
  | Sleep int
  | Warning_fetch string exn
  | Warning_attempt int int string exn
  | Error_failed string

definition fetch_page :: "session \<Rightarrow> string \<Rightarrow> (string \<times> string option) \<times> event list" where
  "fetch_page session url =
     (case attempt_get session url 0 of
        Inr text \<Rightarrow> ((url, Some text), [Get url])
      | Inl e \<Rightarrow> ((url, None), [Get url, Warning_fetch url e]))"

text \<open>
  \<^verbatim>\<open>get_page_content\<close>: the loop \<^verbatim>\<open>for attempt in range(retries)\<close>, entered at
  \<open>attempt\<close> with the effects \<open>ev\<close> so far. An exception that is not a
  \<^verbatim>\<open>RequestException\<close> leaves the function.
\<close>

function get_page_content_from ::
  "session \<Rightarrow> string \<Rightarrow> int \<Rightarrow> int \<Rightarrow> event list \<Rightarrow> exn + (string option \<times> event list)" where
  "get_page_content_from session url retries attempt ev =
     (if 0 \<le> attempt \<and> attempt < retries then
        (case attempt_get session url (nat attempt) of
           Inr content \<Rightarrow> Inr (Some content, ev @ [Get url])
         | Inl e \<Rightarrow>
             if is_request_exception e then
               if attempt < retries - 1 then
                 get_page_content_from session url retries (attempt + 1)
                   (ev @ [Get url, Warning_attempt (attempt + 1) retries url e,
                          Sleep (REQUEST_DELAY * (attempt + 1))])
               else Inr (None, ev @ [Get url, Warning_attempt (attempt + 1) retries url e,
                                     Error_failed url])
             else Inl e)
      else Inr (None, ev))"
  by pat_completeness auto
termination
  by (relation "measure (\<lambda>(session, url, retries, attempt, ev). nat (retries - attempt))") auto


section \<open>Parsed pages\<close>

text \<open>
  The tree that \<^verbatim>\<open>BeautifulSoup(html, 'html.parser')\<close> builds: strings and tags, a tag
  with its name, its attributes and its children. The parser itself and \<^verbatim>\<open>urljoin\<close> are
  library code; the functions below take them as the parameters \<open>BeautifulSoup\<close> and
  \<open>urljoin\<close>.
\<close>

datatype node = NavigableString string | Tag string "(string \<times> string) list" "node list"

fun descendants :: "node \<Rightarrow> node list" where
  "descendants (NavigableString s) = []"
| "descendants (Tag nm ats cs) = concat (map (\<lambda>c. c # descendants c) cs)"

fun attrs :: "node \<Rightarrow> (string \<times> string) list" where
  "attrs (NavigableString s) = []"
| "attrs (Tag nm ats cs) = ats"

fun is_tag :: "string \<Rightarrow> node \<Rightarrow> bool" where
  "is_tag nm (NavigableString s) = False"
| "is_tag nm (Tag nm' ats cs) = (nm' = nm)"

text \<open>The words of an attribute value, as \<^verbatim>\<open>class\<close> is split by the parser.\<close>

function split_ws :: "string \<Rightarrow> string list" where
  "split_ws s =
     (let s' = dropWhile isspace s
      in if s' = [] then []
         else takeWhile (\<lambda>c. \<not> isspace c) s' # split_ws (dropWhile (\<lambda>c. \<not> isspace c) s'))"
  by pat_completeness auto
termination
proof (relation "measure length")
  fix s s' :: string
  assume s': "s' = dropWhile isspace s" and ne: "s' \<noteq> []"
  from ne obtain c r where cr: "s' = c # r" by (cases s') auto
  from hd_dropWhile [of isspace s] s' ne cr have "\<not> isspace c" by (metis list.sel(1))
  with cr have "length (dropWhile (\<lambda>c. \<not> isspace c) s') \<le> length r"
    by (simp add: length_dropWhile_le)
  moreover have "length s' \<le> length s" using s' by (simp add: length_dropWhile_le)
  ultimately show "(dropWhile (\<lambda>c. \<not> isspace c) s', s) \<in> measure length"
    using cr by simp
qed simp

text \<open>
  \<^verbatim>\<open>soup.find_all('div', class_='L', align='left')\<close>: the \<^verbatim>\<open>div\<close> tags below the root,
  in document order, one of whose classes is \<^verbatim>\<open>L\<close> and whose \<^verbatim>\<open>align\<close> is \<^verbatim>\<open>left\<close>.
\<close>

definition listing_div :: "node \<Rightarrow> bool" where
  "listing_div n =
     (is_tag ''div'' n
      \<and> (case map_of (attrs n) ''class'' of
           None \<Rightarrow> False
         | Some v \<Rightarrow> ''L'' \<in> set (split_ws v))
      \<and> map_of (attrs n) ''align'' = Some ''left'')"

definition find_all_divs :: "node \<Rightarrow> node list" where
  "find_all_divs soup = filter listing_div (descendants soup)"

text \<open>\<^verbatim>\<open>div.find('a', href=True)\<close>: the first \<^verbatim>\<open>a\<close> tag below the div that has an href.\<close>

definition find_a :: "node \<Rightarrow> node option" where
  "find_a dv = find (\<lambda>n. is_tag ''a'' n \<and> map_of (attrs n) ''href'' \<noteq> None) (descendants dv)"

text \<open>
  \<^verbatim>\<open>a.get_text(strip=True)\<close>: the strings below the tag, each stripped, the empty ones
  dropped, joined without a separator.
\<close>

fun strings :: "node list \<Rightarrow> string list" where
  "strings [] = []"
| "strings (NavigableString s # ns) = s # strings ns"
| "strings (Tag nm ats cs # ns) = strings ns"

definition get_text :: "node \<Rightarrow> string" where
  "get_text n = concat (filter (\<lambda>s. s \<noteq> []) (map strip (strings (descendants n))))"

text \<open>\<^verbatim>\<open>d[k]\<close> on a dict: the value, or \<^verbatim>\<open>KeyError\<close>.\<close>

definition getitem :: "(string \<times> 'v) list \<Rightarrow> string \<Rightarrow> exn + 'v" where
  "getitem d k = (case map_of d k of None \<Rightarrow> Inl (KeyError k) | Some v \<Rightarrow> Inr v)"

section \<open>\<^verbatim>\<open>scrape_category_page\<close>\<close>

text \<open>The dict appended to \<^verbatim>\<open>page_movies\<close>; its values are evaluated in this order.\<close>

definition movie ::
  "string \<Rightarrow> dict \<Rightarrow> string \<Rightarrow> string \<Rightarrow> exn + dict" where
  "movie category_name info movie_url title =
     (case getitem info ''title'' of Inl e \<Rightarrow> Inl e | Inr t \<Rightarrow>
      case getitem info ''year'' of Inl e \<Rightarrow> Inl e | Inr y \<Rightarrow>
      case getitem info ''quality'' of Inl e \<Rightarrow> Inl e | Inr q \<Rightarrow>
      case getitem info ''language'' of Inl e \<Rightarrow> Inl e | Inr l \<Rightarrow>
      case getitem info ''file_size'' of Inl e \<Rightarrow> Inl e | Inr f \<Rightarrow>
        Inr [(''category'', Some category_name), (''title'', t), (''year'', y),
             (''quality'', q), (''language'', l), (''file_size'', f),
             (''download_url'', Some movie_url), (''full_title'', Some title)])"

text \<open>The loop \<^verbatim>\<open>for div in soup.find_all(...)\<close> over the divs still to visit.\<close>

fun page_loop ::
  "(string \<Rightarrow> string \<Rightarrow> string) \<Rightarrow> string \<Rightarrow> node list \<Rightarrow> dict list \<Rightarrow> exn + dict list" where
  "page_loop urljoin category_name [] page_movies = Inr page_movies"
| "page_loop urljoin category_name (dv # divs) page_movies =
     (case find_a dv of
        None \<Rightarrow> page_loop urljoin category_name divs page_movies
      | Some a \<Rightarrow>
          (case getitem (attrs a) ''href'' of
             Inl e \<Rightarrow> Inl e
           | Inr href \<Rightarrow>
               if href = ''movie/.html'' then page_loop urljoin category_name divs page_movies
               else
                 let title = get_text a;
                     movie_url = urljoin BASE_URL href;
                     info = extract_movie_info title
                 in (case movie category_name info movie_url title of
                       Inl e \<Rightarrow> Inl e
                     | Inr m \<Rightarrow> page_loop urljoin category_name divs (page_movies @ [m]))))"

definition parse_page ::
  "(string \<Rightarrow> string \<Rightarrow> string) \<Rightarrow> string \<Rightarrow> node \<Rightarrow> exn + dict list" where
  "parse_page urljoin category_name soup =
     page_loop urljoin category_name (find_all_divs soup) []"

text \<open>\<^verbatim>\<open>str(i)\<close> for an integer.\<close>

function str_nat :: "nat \<Rightarrow> string" where
  "str_nat n =
     (if n < 10 then [''0123456789'' ! n]
      else str_nat (n div 10) @ [''0123456789'' ! (n mod 10)])"
  by pat_completeness auto
termination
  by (relation "measure id") auto

definition str :: "int \<Rightarrow> string" where
  "str i = (if i < 0 then CHR ''-'' # str_nat (nat (- i)) else str_nat (nat i))"

definition url_of_page :: "string \<Rightarrow> int \<Rightarrow> string" where
  "url_of_page category_url i =
     (if i = 1 then category_url
      else rstrip ''.html'' category_url @ ''/'' @ str i @ ''.html'')"

definition page_urls :: "string \<Rightarrow> int \<Rightarrow> (int \<times> string) list" where
  "page_urls category_url max_pages = map (\<lambda>i. (i, url_of_page category_url i)) [1..max_pages]"

text \<open>
  The loop \<^verbatim>\<open>for future in as_completed(futures)\<close>. A future is named by the page number
  it was submitted for, \<open>urls\<close> are the submitted pairs and \<open>order\<close> lists the futures in
  the order in which they complete, which the thread pool decides. The effects of a fetch
  are recorded when its future completes.
\<close>

fun as_completed_loop ::
  "session \<Rightarrow> (string \<Rightarrow> node) \<Rightarrow> (string \<Rightarrow> string \<Rightarrow> string) \<Rightarrow> string \<Rightarrow>
   (int \<times> string) list \<Rightarrow> int list \<Rightarrow> (int \<times> dict list) list \<Rightarrow> event list \<Rightarrow>
   exn + ((int \<times> dict list) list \<times> event list)" where
  "as_completed_loop session BeautifulSoup urljoin category_name urls [] page_results ev =
     Inr (page_results, ev)"
| "as_completed_loop session BeautifulSoup urljoin category_name urls (page_num # order)
     page_results ev =
     (case map_of urls page_num of
        None \<Rightarrow> Inl (KeyError (str page_num))
      | Some url \<Rightarrow>
          (case fetch_page session url of
             ((page_url, None), ev1) \<Rightarrow>
               as_completed_loop session BeautifulSoup urljoin category_name urls order
                 page_results (ev @ ev1)
           | ((page_url, Some html), ev1) \<Rightarrow>
               if html = [] then
                 as_completed_loop session BeautifulSoup urljoin category_name urls order
                   page_results (ev @ ev1)
               else
                 (case parse_page urljoin category_name (BeautifulSoup html) of
                    Inl e \<Rightarrow> Inl e
                  | Inr page_movies \<Rightarrow>
                      as_completed_loop session BeautifulSoup urljoin category_name urls order
                        (page_results @ [(page_num, page_movies)]) (ev @ ev1))))"

text \<open>
  \<^verbatim>\<open>scrape_category_page\<close>. \<^verbatim>\<open>ThreadPoolExecutor\<close> raises \<^verbatim>\<open>ValueError\<close> for
  \<^verbatim>\<open>max_workers <= 0\<close>; \<^verbatim>\<open>list.sort\<close> is stable, as \<open>sort_key\<close> is.
\<close>

definition scrape_category_page ::
  "session \<Rightarrow> (string \<Rightarrow> node) \<Rightarrow> (string \<Rightarrow> string \<Rightarrow> string) \<Rightarrow> int list \<Rightarrow>
   string \<Rightarrow> string \<Rightarrow> int \<Rightarrow> int \<Rightarrow> exn + (dict list \<times> event list)" where
  "scrape_category_page session BeautifulSoup urljoin order category_url category_name
     max_pages workers =
     (let urls = page_urls category_url max_pages
      in if workers \<le> 0 then Inl (ValueError ''max_workers must be greater than 0'')
         else
           (case as_completed_loop session BeautifulSoup urljoin category_name urls order [] [] of
              Inl e \<Rightarrow> Inl e
            | Inr (page_results, ev) \<Rightarrow>
                Inr (concat (map snd (sort_key fst page_results)), ev)))"

section \<open>\<^verbatim>\<open>save_to_excel\<close> and \<^verbatim>\<open>main\<close>\<close>

definition columns :: "string list" where
  "columns = [''category'', ''title'', ''year'', ''quality'', ''language'', ''genre'',
              ''file_size'', ''release_date'', ''stars'', ''download_url'', ''poster_url'',
              ''full_title'']"

text \<open>
  \<^verbatim>\<open>pd.DataFrame(data).columns\<close> for a list of dicts: the keys of the dicts, each once,
  in the order in which they first appear.
\<close>

fun add_keys :: "string list \<Rightarrow> string list \<Rightarrow> string list" where
  "add_keys cols [] = cols"
| "add_keys cols (k # ks) = add_keys (if k \<in> set cols then cols else cols @ [k]) ks"

definition df_columns :: "dict list \<Rightarrow> string list" where
  "df_columns data = foldl (\<lambda>cols d. add_keys cols (map fst d)) [] data"

text \<open>
  The sheet that \<^verbatim>\<open>save_to_excel\<close> writes: the header row and one row for each dict, a
  cell being empty (\<open>None\<close>) where the dict has no value for the column. Styling, column
  widths and the frozen header are left out.
\<close>

definition save_to_excel :: "dict list \<Rightarrow> string list \<times> pyval list list" where
  "save_to_excel data =
     (let cols = filter (\<lambda>col. col \<in> set (df_columns data)) columns
      in (cols, map (\<lambda>d. map (\<lambda>col. case map_of d col of None \<Rightarrow> None | Some v \<Rightarrow> v) cols) data))"

text \<open>
  The loop of \<^verbatim>\<open>main\<close> over the categories, \<open>idx\<close> counting them; \<open>sched idx\<close> is the
  order in which the fetches of category \<open>idx\<close> complete.
\<close>

fun main_loop ::
  "session \<Rightarrow> (string \<Rightarrow> node) \<Rightarrow> (string \<Rightarrow> string \<Rightarrow> string) \<Rightarrow> (nat \<Rightarrow> int list) \<Rightarrow>
   (string \<times> string) list \<Rightarrow> nat \<Rightarrow> dict list \<Rightarrow> event list \<Rightarrow>
   exn + (dict list \<times> event list)" where
  "main_loop session BeautifulSoup urljoin sched [] idx all_movies ev = Inr (all_movies, ev)"
| "main_loop session BeautifulSoup urljoin sched (category # categories) idx all_movies ev =
     (case scrape_category_page session BeautifulSoup urljoin (sched idx)
             (snd category) (fst category) 20 10 of
        Inl e \<Rightarrow> Inl e
      | Inr (movies, ev1) \<Rightarrow>
          main_loop session BeautifulSoup urljoin sched categories (Suc idx)
            (all_movies @ movies) (ev @ ev1 @ [Sleep REQUEST_DELAY]))"

text \<open>\<^verbatim>\<open>main\<close>: the sheet saved (if any movie was found), all movies and the effects.\<close>

definition main ::
  "session \<Rightarrow> (string \<Rightarrow> node) \<Rightarrow> (string \<Rightarrow> string \<Rightarrow> string) \<Rightarrow> (nat \<Rightarrow> int list) \<Rightarrow>
   exn + ((string list \<times> pyval list list) option \<times> dict list \<times> event list)" where
  "main session BeautifulSoup urljoin sched =
     (case main_loop session BeautifulSoup urljoin sched CATEGORIES 1 [] [] of
        Inl e \<Rightarrow> Inl e
      | Inr (all_movies, ev) \<Rightarrow>
          Inr (if all_movies \<noteq> [] then Some (save_to_excel all_movies) else None,
               all_movies, ev))"

section \<open>Notions used to state the properties\<close>

text \<open>
  The links of a listing page: for each listing div whose first anchor with an href does
  not point to the placeholder \<^verbatim>\<open>movie/.html\<close>, the href and the text of that anchor.
\<close>

definition link_of_div :: "node \<Rightarrow> (string \<times> string) list" where
  "link_of_div dv =
     (case find_a dv of
        None \<Rightarrow> []
      | Some a \<Rightarrow>
          (case map_of (attrs a) ''href'' of
             None \<Rightarrow> []
           | Some href \<Rightarrow> if href = ''movie/.html'' then [] else [(href, get_text a)]))"

definition usable_links :: "node \<Rightarrow> (string \<times> string) list" where
  "usable_links soup = concat (map link_of_div (find_all_divs soup))"

text \<open>What one page of a category yields: nothing when the page is skipped.\<close>

definition page_result ::
  "session \<Rightarrow> (string \<Rightarrow> node) \<Rightarrow> (string \<Rightarrow> string \<Rightarrow> string) \<Rightarrow> string \<Rightarrow> string \<Rightarrow>
   int \<Rightarrow> dict list option" where
  "page_result session BeautifulSoup urljoin category_url category_name i =
     (case fst (fetch_page session (url_of_page category_url i)) of
        (page_url, None) \<Rightarrow> None
      | (page_url, Some html) \<Rightarrow>
          if html = [] then None
          else (case parse_page urljoin category_name (BeautifulSoup html) of
                  Inl e \<Rightarrow> None
                | Inr page_movies \<Rightarrow> Some page_movies))"

definition page_records ::
  "session \<Rightarrow> (string \<Rightarrow> node) \<Rightarrow> (string \<Rightarrow> string \<Rightarrow> string) \<Rightarrow> string \<Rightarrow> string \<Rightarrow>
   int \<Rightarrow> dict list" where
  "page_records session BeautifulSoup urljoin category_url category_name i =
     (case page_result session BeautifulSoup urljoin category_url category_name i of
        None \<Rightarrow> []
      | Some page_movies \<Rightarrow> page_movies)"

text \<open>The category, the download URL and the full title of a record.\<close>

definition movie_fields :: "dict \<Rightarrow> (exn + pyval) \<times> (exn + pyval) \<times> (exn + pyval)" where
  "movie_fields m = (getitem m ''category'', getitem m ''download_url'', getitem m ''full_title'')"

text \<open>The requests and the delays among the effects.\<close>

fun gets :: "event list \<Rightarrow> nat" where
  "gets [] = 0"
| "gets (Get url # ev) = Suc (gets ev)"
| "gets (e # ev) = gets ev"

fun sleeps :: "event list \<Rightarrow> int list" where
  "sleeps [] = []"
| "sleeps (Sleep d # ev) = d # sleeps ev"
| "sleeps (e # ev) = sleeps ev"


section \<open>Example inputs\<close>

text \<open>
  A listing page with four listing divs: a movie link followed by a placeholder link, a div
  whose anchor has no href, a div whose first anchor is the placeholder, and a second movie.
\<close>

definition example_soup :: node where
  "example_soup =
     Tag ''[document]'' []
       [Tag ''div'' [(''class'', ''L''), (''align'', ''left'')]
          [Tag ''a'' [(''href'', ''/movie/1.html'')]
             [NavigableString '' Kabir Singh (2019) Hindi 720p [1.2GB] ''],
           Tag ''a'' [(''href'', ''movie/.html'')] []],
        Tag ''div'' [(''class'', ''L''), (''align'', ''left'')] [Tag ''a'' [] []],
        Tag ''div'' [(''class'', ''Bolly L''), (''align'', ''left'')]
          [Tag ''b'' [] [Tag ''a'' [(''href'', ''movie/.html'')] [NavigableString ''x'']]],
        Tag ''div'' [(''class'', ''L''), (''align'', ''left'')]
          [Tag ''a'' [(''href'', ''/movie/2.html'')] [NavigableString ''Jawan 480p'']],
        Tag ''div'' [(''class'', ''M''), (''align'', ''left'')]
          [Tag ''a'' [(''href'', ''/movie/3.html'')] [NavigableString ''Other'']]]"

definition empty_soup :: node where
  "empty_soup = Tag ''[document]'' [] [Tag ''p'' [] [NavigableString ''No movies'']]"

text \<open>A parser that knows the body \<^verbatim>\<open>listing\<close>, and a simple \<^verbatim>\<open>urljoin\<close>.\<close>

definition example_parser :: "string \<Rightarrow> node" where
  "example_parser html = (if html = ''listing'' then example_soup else empty_soup)"

definition example_urljoin :: "string \<Rightarrow> string \<Rightarrow> string" where
  "example_urljoin base href = base @ href"



definition dead_session :: session where
  "dead_session url k = Raises (RequestException ''unreachable'')"

section \<open>Properties of \<^verbatim>\<open>extract_movie_info\<close>\<close>




lemma detect_language_lookup:
  "map_of (detect_language ls t info) ''language'' =
     (case find (\<lambda>l. contains (lower l) (lower t)) ls of
        Some l \<Rightarrow> Some (Some l)
      | None \<Rightarrow> map_of info ''language'')"
  by (induction ls) (simp_all add: update_conv')



text \<open>
  C5, as the code has it. For the title \<^verbatim>\<open>Movie Name (2023) 1080p [1.4GB]\<close> the year is
  \<^verbatim>\<open>2023\<close>, the quality \<^verbatim>\<open>1080p\<close>, the file size \<^verbatim>\<open>1.4GB\<close> and no language is found;
  the cleaned title is \<^verbatim>\<open>Name\<close>, because the noise-word pattern also removes the word
  \<^verbatim>\<open>Movie\<close>. It holds no year, no quality and no bracketed tag.
\<close>

theorem extract_movie_info_example:
  "extract_movie_info ''Movie Name (2023) 1080p [1.4GB]'' =
     [(''title'', Some ''Name''), (''year'', Some ''2023''), (''quality'', Some ''1080p''),
      (''language'', None), (''file_size'', Some ''1.4GB'')]"
  by code_simp

text \<open>
  C5 as the claim words it fails: the cleaned title of \<^verbatim>\<open>Movie Name (2023) 1080p [1.4GB]\<close>
  is not \<^verbatim>\<open>Movie Name\<close>.
\<close>

theorem extract_movie_info_title_counterexample:
  "map_of (extract_movie_info ''Movie Name (2023) 1080p [1.4GB]'') ''title''
     \<noteq> Some (Some ''Movie Name'')"
  by code_simp


section \<open>Properties of parsing a page\<close>

lemma detect_language_other:
  "k \<noteq> ''language'' \<Longrightarrow> map_of (detect_language ls t info) k = map_of info k"
  by (induction ls) (simp_all add: update_conv')

lemma movie_total:
  "movie c (extract_movie_info t) u t =
     Inr [(''category'', Some c), (''title'', Some (clean t)), (''year'', re_search m_year t),
          (''quality'', re_search (m_alts quality_alts) t),
          (''language'', find (\<lambda>l. contains (lower l) (lower t)) languages),
          (''file_size'', re_search m_size t),
          (''download_url'', Some u), (''full_title'', Some t)]"
  unfolding movie_def getitem_def extract_movie_info_def Let_def
  by (simp add: update_conv' detect_language_other detect_language_lookup split: option.split)

lemma find_a_href: "find_a dv = Some a \<Longrightarrow> \<exists>h. map_of (attrs a) ''href'' = Some h"
  by (auto simp: find_a_def find_Some_iff)

lemma page_loop_skip:
  "link_of_div dv = [] \<Longrightarrow> page_loop urljoin c (dv # divs) acc = page_loop urljoin c divs acc"
  using find_a_href [of dv]
  by (auto simp: link_of_div_def getitem_def split: option.splits if_splits)

lemma link_of_div_cases:
  "link_of_div dv = [] \<or>
   (\<exists>a href. find_a dv = Some a \<and> map_of (attrs a) ''href'' = Some href \<and>
      href \<noteq> ''movie/.html'' \<and> link_of_div dv = [(href, get_text a)])"
  by (auto simp: link_of_div_def split: option.splits if_splits)

lemma page_loop_take:
  assumes "find_a dv = Some a" "map_of (attrs a) ''href'' = Some href" "href \<noteq> ''movie/.html''"
  shows "\<exists>m. page_loop urljoin c (dv # divs) acc = page_loop urljoin c divs (acc @ [m])
     \<and> getitem m ''category'' = Inr (Some c)
     \<and> getitem m ''download_url'' = Inr (Some (urljoin BASE_URL href))
     \<and> getitem m ''full_title'' = Inr (Some (get_text a))"
proof -
  let ?m = "[(''category'', Some c), (''title'', Some (clean (get_text a))),
          (''year'', re_search m_year (get_text a)),
          (''quality'', re_search (m_alts quality_alts) (get_text a)),
          (''language'', find (\<lambda>l. contains (lower l) (lower (get_text a))) languages),
          (''file_size'', re_search m_size (get_text a)),
          (''download_url'', Some (urljoin BASE_URL href)), (''full_title'', Some (get_text a))]"
  have "page_loop urljoin c (dv # divs) acc = page_loop urljoin c divs (acc @ [?m])"
    using assms by (simp add: movie_total getitem_def Let_def)
  moreover have "getitem ?m ''category'' = Inr (Some c)" by (simp add: getitem_def)
  moreover have "getitem ?m ''download_url'' = Inr (Some (urljoin BASE_URL href))"
    by (simp add: getitem_def)
  moreover have "getitem ?m ''full_title'' = Inr (Some (get_text a))" by (simp add: getitem_def)
  ultimately show ?thesis by blast
qed

lemma page_loop_eq:
  "\<exists>ms. page_loop urljoin c divs acc = Inr (acc @ ms)
     \<and> map movie_fields ms =
       map (\<lambda>l. (Inr (Some c), Inr (Some (urljoin BASE_URL (fst l))), Inr (Some (snd l))))
         (concat (map link_of_div divs))"
proof (induction divs arbitrary: acc)
  case Nil
  then show ?case by simp
next
  case (Cons dv divs)
  from link_of_div_cases [of dv] show ?case
  proof
    assume e: "link_of_div dv = []"
    from Cons.IH [of acc] e show ?thesis by (simp only: page_loop_skip list.map concat.simps append_Nil)
  next
    assume "\<exists>a href. find_a dv = Some a \<and> map_of (attrs a) ''href'' = Some href \<and>
      href \<noteq> ''movie/.html'' \<and> link_of_div dv = [(href, get_text a)]"
    then obtain a href where a: "find_a dv = Some a" "map_of (attrs a) ''href'' = Some href"
      "href \<noteq> ''movie/.html''" and l: "link_of_div dv = [(href, get_text a)]" by blast
    from page_loop_take [OF a, of urljoin c divs acc] obtain m where
      m: "page_loop urljoin c (dv # divs) acc = page_loop urljoin c divs (acc @ [m])"
      and pm: "movie_fields m = (Inr (Some c), Inr (Some (urljoin BASE_URL href)), Inr (Some (get_text a)))"
      by (auto simp: movie_fields_def)
    from Cons.IH [of "acc @ [m]"] obtain ms where
      ms: "page_loop urljoin c divs (acc @ [m]) = Inr ((acc @ [m]) @ ms)"
      and pms: "map movie_fields ms =
       map (\<lambda>l. (Inr (Some c), Inr (Some (urljoin BASE_URL (fst l))), Inr (Some (snd l))))
         (concat (map link_of_div divs))" by blast
    have "page_loop urljoin c (dv # divs) acc = Inr (acc @ (m # ms))"
      using ms by (simp only: m append_assoc append_Cons append_Nil)
    moreover have "map movie_fields (m # ms) =
       map (\<lambda>l. (Inr (Some c), Inr (Some (urljoin BASE_URL (fst l))), Inr (Some (snd l))))
         (concat (map link_of_div (dv # divs)))"
      using l pm pms by simp
    ultimately show ?thesis by blast
  qed
qed

lemma parse_page_total:
  "\<exists>ms. parse_page urljoin c soup = Inr ms \<and> length ms = length (usable_links soup)"
proof -
  from page_loop_eq [of urljoin c "find_all_divs soup" "[]"] obtain ms where
    a: "page_loop urljoin c (find_all_divs soup) [] = Inr ([] @ ms)" and
    b: "map movie_fields ms =
       map (\<lambda>l. (Inr (Some c), Inr (Some (urljoin BASE_URL (fst l))), Inr (Some (snd l))))
         (concat (map link_of_div (find_all_divs soup)))" by blast
  from arg_cong [OF b, of length] have "length ms = length (usable_links soup)"
    by (simp add: usable_links_def)
  with a show ?thesis by (simp add: parse_page_def)
qed


section \<open>The URLs of a category\<close>

text \<open>
  The pages of one category have pairwise different URLs, whatever the category URL is. So
  each URL is requested once in a call of \<^verbatim>\<open>scrape_category_page\<close>, and the fetch of a
  page is the first request of its URL.
\<close>

lemma digit_inj:
  "n < 10 \<Longrightarrow> m < 10 \<Longrightarrow> ''0123456789'' ! n = ''0123456789'' ! m \<Longrightarrow> n = m"
  by (rule nth_eq_iff_index_eq [THEN iffD1, of "''0123456789''"]) simp_all

lemma str_nat_not_Nil: "str_nat n \<noteq> []"
  by (subst str_nat.simps) simp

lemma str_nat_small: "n < 10 \<Longrightarrow> str_nat n = [''0123456789'' ! n]"
  by (subst str_nat.simps) simp

lemma str_nat_big: "\<not> n < 10 \<Longrightarrow> str_nat n = str_nat (n div 10) @ [''0123456789'' ! (n mod 10)]"
  by (subst str_nat.simps) simp

lemma str_nat_inj: "str_nat n = str_nat m \<Longrightarrow> n = m"
proof (induction n arbitrary: m rule: str_nat.induct)
  case (1 n)
  show ?case
  proof (cases "n < 10")
    case n: True
    show ?thesis
    proof (cases "m < 10")
      case True
      with n "1.prems" show ?thesis by (simp add: str_nat_small digit_inj)
    next
      case False
      with n "1.prems" str_nat_not_Nil [of "m div 10"] show ?thesis
        by (simp add: str_nat_small str_nat_big)
    qed
  next
    case n: False
    show ?thesis
    proof (cases "m < 10")
      case True
      with n "1.prems" str_nat_not_Nil [of "n div 10"] show ?thesis
        by (simp add: str_nat_small str_nat_big)
    next
      case False
      with n "1.prems" have e: "str_nat (n div 10) = str_nat (m div 10)"
        and d: "''0123456789'' ! (n mod 10) = ''0123456789'' ! (m mod 10)"
        by (simp_all add: str_nat_big)
      from "1.IH" [OF n e] have "n div 10 = m div 10" .
      moreover from d have "n mod 10 = m mod 10" by (intro digit_inj) simp_all
      ultimately show ?thesis by (metis div_mult_mod_eq)
    qed
  qed
qed

lemma str_inj: "0 \<le> i \<Longrightarrow> 0 \<le> j \<Longrightarrow> str i = str j \<Longrightarrow> i = j"
  using str_nat_inj [of "nat i" "nat j"] by (simp add: str_def)

lemma rstrip_decomp: "\<exists>t. s = rstrip chars s @ t \<and> set t \<subseteq> set chars"
proof -
  let ?P = "\<lambda>c. c \<in> set chars"
  have "rev s = takeWhile ?P (rev s) @ dropWhile ?P (rev s)" by simp
  then have "s = rev (dropWhile ?P (rev s)) @ rev (takeWhile ?P (rev s))"
    by (metis rev_append rev_rev_ident)
  moreover have "set (rev (takeWhile ?P (rev s))) \<subseteq> set chars"
    using set_takeWhileD by fastforce
  ultimately show ?thesis unfolding rstrip_def by blast
qed

lemma url_of_page_inj:
  assumes "1 \<le> i" "1 \<le> j" "url_of_page category_url i = url_of_page category_url j"
  shows "i = j"
proof -
  have first: "k \<noteq> 1 \<Longrightarrow> url_of_page category_url 1 \<noteq> url_of_page category_url k" for k
  proof
    assume k: "k \<noteq> 1" and e: "url_of_page category_url 1 = url_of_page category_url k"
    from rstrip_decomp [of category_url "''.html''"] obtain t where
      t: "category_url = rstrip ''.html'' category_url @ t" and s: "set t \<subseteq> set ''.html''"
      by blast
    from e k have "category_url = rstrip ''.html'' category_url @ ''/'' @ str k @ ''.html''"
      by (simp add: url_of_page_def)
    with t have "t = ''/'' @ str k @ ''.html''" by (metis same_append_eq)
    with s show False by auto
  qed
  show ?thesis
  proof (cases "i = 1 \<or> j = 1")
    case True
    with first assms(3) show ?thesis by metis
  next
    case False
    with assms(3) have "str i = str j" by (simp add: url_of_page_def)
    with assms(1,2) show ?thesis by (intro str_inj) simp_all
  qed
qed

lemma page_urls_distinct: "distinct (map snd (page_urls category_url max_pages))"
proof -
  have "inj_on (url_of_page category_url) (set [1..max_pages])"
    by (rule inj_onI) (auto dest: url_of_page_inj)
  then show ?thesis
    by (simp add: page_urls_def comp_def distinct_map)
qed

section \<open>Properties of \<^verbatim>\<open>scrape_category_page\<close>\<close>

lemma map_of_tabulate:
  "map_of (map (\<lambda>i. (i, f i)) xs) i = (if i \<in> set xs then Some (f i) else None)"
  by (induction xs) auto

lemma map_of_page_urls:
  "i \<in> {1..max_pages} \<Longrightarrow>
   map_of (page_urls category_url max_pages) i = Some (url_of_page category_url i)"
  by (simp add: page_urls_def map_of_tabulate)

lemma fetch_page_fst: "fst (fst (fetch_page session url)) = url"
  by (simp add: fetch_page_def split: sum.split)

lemma as_completed_loop_eq:
  assumes "set order \<subseteq> {1..max_pages}"
  shows "as_completed_loop session BeautifulSoup urljoin category_name
           (page_urls category_url max_pages) order page_results ev =
         Inr (page_results @
                List.map_filter
                  (\<lambda>i. map_option (Pair i)
                     (page_result session BeautifulSoup urljoin category_url category_name i))
                  order,
              ev @ concat (map (\<lambda>i. snd (fetch_page session (url_of_page category_url i))) order))"
  using assms
proof (induction order arbitrary: page_results ev)
  case Nil
  then show ?case by (simp add: List.map_filter_simps)
next
  case (Cons i order)
  let ?url = "url_of_page category_url i"
  from Cons.prems have i: "i \<in> {1..max_pages}" and rest: "set order \<subseteq> {1..max_pages}" by auto
  note u = map_of_page_urls [OF i, of category_url]
  obtain h ev1 where f: "fetch_page session ?url = ((?url, h), ev1)"
    using fetch_page_fst [of session ?url] by (cases "fetch_page session ?url") auto
  note IH = Cons.IH [OF rest]
  show ?case
  proof (cases h)
    case None
    with f have "page_result session BeautifulSoup urljoin category_url category_name i = None"
      by (simp add: page_result_def)
    with None f u IH show ?thesis by (simp add: List.map_filter_simps)
  next
    case (Some html)
    show ?thesis
    proof (cases "html = []")
      case True
      with Some f have "page_result session BeautifulSoup urljoin category_url category_name i = None"
        by (simp add: page_result_def)
      with True Some f u IH show ?thesis by (simp add: List.map_filter_simps)
    next
      case False
      from parse_page_total [of urljoin category_name "BeautifulSoup html"] obtain ms where
        ms: "parse_page urljoin category_name (BeautifulSoup html) = Inr ms" by blast
      with False Some f
      have "page_result session BeautifulSoup urljoin category_url category_name i = Some ms"
        by (simp add: page_result_def)
      with ms False Some f u IH show ?thesis by (simp add: List.map_filter_simps)
    qed
  qed
qed

lemma insort_key_fst_tagged:
  "insort_key fst (x, g x) (map (\<lambda>i. (i, g i)) ys) = map (\<lambda>i. (i, g i)) (insort x ys)"
  by (induction ys) auto

lemma sort_key_fst_tagged:
  "sort_key fst (map (\<lambda>i. (i, g i)) xs) = map (\<lambda>i. (i, g i)) (sort xs)"
  by (induction xs) (simp_all add: insort_key_fst_tagged)

lemma map_filter_tagged:
  "List.map_filter (\<lambda>i. map_option (Pair i) (r i)) xs =
   map (\<lambda>i. (i, the (r i))) (filter (\<lambda>i. r i \<noteq> None) xs)"
  by (induction xs) (auto simp: List.map_filter_simps)

lemma concat_tagged:
  "concat (map snd (map (\<lambda>i. (i, the (r i))) (filter (\<lambda>i. r i \<noteq> None) xs))) =
   concat (map (\<lambda>i. case r i of None \<Rightarrow> [] | Some ms \<Rightarrow> ms) xs)"
  by (induction xs) auto

lemma sort_permutation:
  fixes order :: "int list"
  assumes "distinct order" "set order = {1..n}"
  shows "sort order = [1..n]"
  by (rule sorted_distinct_set_unique) (use assms in simp_all)

lemma sorted_pages:
  fixes order :: "int list"
  assumes "distinct order" "set order = {1..n}"
  shows "concat (map snd (sort_key fst (List.map_filter (\<lambda>i. map_option (Pair i) (r i)) order))) =
         concat (map (\<lambda>i. case r i of None \<Rightarrow> [] | Some ms \<Rightarrow> ms) [1..n])"
proof -
  have "sort_key fst (List.map_filter (\<lambda>i. map_option (Pair i) (r i)) order) =
        map (\<lambda>i. (i, the (r i))) (filter (\<lambda>i. r i \<noteq> None) (sort order))"
    by (simp only: map_filter_tagged sort_key_fst_tagged filter_sort)
  also have "sort order = [1..n]" by (rule sort_permutation [OF assms])
  finally show ?thesis by (simp only: concat_tagged)
qed

lemma scrape_category_page_eq:
  assumes "0 < workers" "distinct order" "set order = {1..max_pages}"
  shows "scrape_category_page session BeautifulSoup urljoin order category_url category_name
           max_pages workers =
         Inr (concat (map (page_records session BeautifulSoup urljoin category_url category_name)
                [1..max_pages]),
              concat (map (\<lambda>i. snd (fetch_page session (url_of_page category_url i))) order))"
proof -
  from assms(3) have sub: "set order \<subseteq> {1..max_pages}" by simp
  have pr: "page_records session BeautifulSoup urljoin category_url category_name =
        (\<lambda>i. case page_result session BeautifulSoup urljoin category_url category_name i of
                None \<Rightarrow> [] | Some ms \<Rightarrow> ms)"
    by (rule ext) (simp add: page_records_def)
  show ?thesis
    unfolding scrape_category_page_def Let_def
    using assms(1)
    by (simp add: as_completed_loop_eq [OF sub] sorted_pages [OF assms(2,3)] pr)
qed


lemma failed_fetch:
  "attempt_get session url 0 = Inl e \<Longrightarrow>
   fetch_page session url = ((url, None), [Get url, Warning_fetch url e])"
  by (simp add: fetch_page_def)


lemma failed_page_records:
  "attempt_get session (url_of_page category_url k) 0 = Inl e \<Longrightarrow>
   page_records session BeautifulSoup urljoin category_url category_name k = []"
  by (simp add: page_records_def page_result_def failed_fetch)














text \<open>
  C8. When every page fetch of a category fails, \<^verbatim>\<open>scrape_category_page\<close> returns the empty
  list, a warning has been logged for each of its pages, and the loop of \<^verbatim>\<open>main\<close> (which
  calls it with 20 pages and 10 workers) goes on with the next category, \<^verbatim>\<open>all_movies\<close>
  unchanged.
\<close>

theorem unreachable_category:
  assumes "0 < workers" and "distinct order" and "set order = {1..max_pages}"
    and "\<forall>i\<in>{1..max_pages}. \<exists>e. attempt_get session (url_of_page category_url i) 0 = Inl e"
  shows "\<exists>ev. scrape_category_page session BeautifulSoup urljoin order category_url category_name
                max_pages workers = Inr ([], ev)
           \<and> (\<forall>i\<in>{1..max_pages}. \<exists>e. Warning_fetch (url_of_page category_url i) e \<in> set ev)
           \<and> (max_pages = 20 \<and> workers = 10 \<and> sched idx = order \<longrightarrow>
                main_loop session BeautifulSoup urljoin sched
                  ((category_name, category_url) # categories) idx all_movies evs =
                main_loop session BeautifulSoup urljoin sched categories (Suc idx) all_movies
                  (evs @ ev @ [Sleep REQUEST_DELAY]))"
proof -
  let ?ev = "concat (map (\<lambda>i. snd (fetch_page session (url_of_page category_url i))) order)"
  have "\<forall>i\<in>set [1..max_pages].
          page_records session BeautifulSoup urljoin category_url category_name i = []"
    using assms(4) failed_page_records by auto
  then have "concat (map (page_records session BeautifulSoup urljoin category_url category_name)
                [1..max_pages]) = []"
    by simp
  with scrape_category_page_eq [OF assms(1,2,3)]
  have s: "scrape_category_page session BeautifulSoup urljoin order category_url category_name
             max_pages workers = Inr ([], ?ev)" by simp
  have w: "\<forall>i\<in>{1..max_pages}. \<exists>e. Warning_fetch (url_of_page category_url i) e \<in> set ?ev"
  proof
    fix i assume i: "i \<in> {1..max_pages}"
    with assms(4) obtain e where "attempt_get session (url_of_page category_url i) 0 = Inl e"
      by blast
    from failed_fetch [OF this] i assms(3)
    have "Warning_fetch (url_of_page category_url i) e \<in> set ?ev" by force
    then show "\<exists>e. Warning_fetch (url_of_page category_url i) e \<in> set ?ev" ..
  qed
  have m: "max_pages = 20 \<and> workers = 10 \<and> sched idx = order \<longrightarrow>
                main_loop session BeautifulSoup urljoin sched
                  ((category_name, category_url) # categories) idx all_movies evs =
                main_loop session BeautifulSoup urljoin sched categories (Suc idx) all_movies
                  (evs @ ?ev @ [Sleep REQUEST_DELAY])"
    using s by auto
  from s w m show ?thesis by blast
qed

text \<open>C8 on a session for which every request fails.\<close>

theorem unreachable_category_witness:
  "\<exists>ev. scrape_category_page dead_session example_parser example_urljoin [1..20]
           ''c.html'' ''Cat'' 20 10 = Inr ([], ev)
      \<and> main_loop dead_session example_parser example_urljoin (\<lambda>idx. [1..20])
           [(''Cat'', ''c.html'')] 1 [] [] = Inr ([], ev @ [Sleep REQUEST_DELAY])"
proof -
  have a: "(0::int) < 10" by simp
  have b: "distinct [1..20]" by simp
  have c: "set [1..20] = {1..20}" by simp
  have d: "\<forall>i\<in>{1..20}. \<exists>e. attempt_get dead_session (url_of_page ''c.html'' i) 0 = Inl e"
    by (simp add: attempt_get_def dead_session_def)
  from unreachable_category [where workers = 10 and order = "[1..20]" and max_pages = 20
      and session = dead_session and category_url = "''c.html''"
      and BeautifulSoup = example_parser and urljoin = example_urljoin
      and category_name = "''Cat''" and sched = "\<lambda>idx. [1..20]" and idx = 1
      and categories = "[]" and all_movies = "[]" and evs = "[]", OF a b c d]
  show ?thesis by auto
qed

section \<open>Properties of \<^verbatim>\<open>save_to_excel\<close>\<close>






section \<open>Properties of the retry loop\<close>

lemma gets_append: "gets (xs @ ys) = gets xs + gets ys"
  by (induction xs rule: gets.induct) simp_all

lemma sleeps_append: "sleeps (xs @ ys) = sleeps xs @ sleeps ys"
  by (induction xs rule: sleeps.induct) simp_all

lemma attempt_3: "get_page_content_from session url 3 3 ev = Inr (None, ev)"
  by (subst get_page_content_from.simps) simp









end
